theory Spec2Isabelle
  imports Complex_Main
begin

section \<open>Numbers and errors\<close>

text \<open>
  The scripts compute with Python floats and NumPy arrays of floats. The embedding reads a
  float as the real number it stands for and every arithmetic operation as exact: rounding,
  overflow to infinity and NaN are not part of the model. Where Python leaves the reals
  (a negative base raised to a non-integer power gives a \<open>complex\<close>), the model follows it
  into the complex numbers. A list of numbers and a NumPy array are both a HOL list.

  Python raises where HOL's total operations return a default value, so every raising
  operation of the source is written out: dividing a Python float by zero and raising zero
  to a negative power raise \<open>ZeroDivisionError\<close>; \<open>raise ValueError(msg)\<close> carries
  its message.
\<close>

datatype py_error = ValueError string | ZeroDivisionError

text \<open>Python's \<open>a / b\<close> on two floats.\<close>

definition py_div :: "real \<Rightarrow> real \<Rightarrow> py_error + real" where
  "py_div a b = (if b = 0 then Inl ZeroDivisionError else Inr (a / b))"

text \<open>
  Python's \<open>b ** t\<close> on floats. A positive base gives the real power. Base zero gives
  \<open>1.0\<close> for exponent zero, \<open>0.0\<close> for a positive exponent and raises for a negative
  one. A negative base gives the real power when the exponent is an integer and otherwise
  the complex number of modulus \<open>|b| ** t\<close> and argument \<open>pi * t\<close>; the two agree as
  complex numbers, since \<open>cis (pi * t)\<close> is \<open>1\<close> or \<open>-1\<close> at an integer \<open>t\<close>.
\<close>

definition py_pow :: "real \<Rightarrow> real \<Rightarrow> py_error + complex" where
  "py_pow b t =
     (if 0 < b then Inr (complex_of_real (b powr t))
      else if b = 0 then
        (if t < 0 then Inl ZeroDivisionError
         else if t = 0 then Inr 1 else Inr 0)
      else Inr (complex_of_real (\<bar>b\<bar> powr t) * cis (pi * t)))"

text \<open>Python's \<open>cf / p\<close> with a float numerator and the result of a power below.\<close>

definition py_cdiv :: "real \<Rightarrow> complex \<Rightarrow> py_error + complex" where
  "py_cdiv a p = (if p = 0 then Inl ZeroDivisionError else Inr (complex_of_real a / p))"

text \<open>
  \<open>np.sqrt\<close> on a float: a negative operand gives NaN (with a warning, no exception).
  \<open>None\<close> stands for NaN.
\<close>

definition np_sqrt :: "real \<Rightarrow> real option" where
  "np_sqrt x = (if x < 0 then None else Some (sqrt x))"

section \<open>Herfindahl-Hirschman index\<close>

text \<open>
  \<open>calculate_hhi(market_shares)\<close>: the two guards return \<open>0.0\<close>; otherwise the
  shares are divided by their total, scaled to percentages, squared and summed. The division
  is NumPy's (array by scalar), which never raises, and it is reached only with a non-zero
  total.
\<close>

definition calculate_hhi :: "real list \<Rightarrow> real" where
  "calculate_hhi market_shares =
     (if market_shares = [] then 0
      else
        let shares_array = market_shares;
            total_market_size = sum_list shares_array
        in if total_market_size = 0 then 0
           else
             let percentage_shares = map (\<lambda>s. (s / total_market_size) * 100) shares_array;
                 squared_shares = map (\<lambda>p. p ^ 2) percentage_shares;
                 hhi = sum_list squared_shares
             in hhi)"

section \<open>Macaulay duration\<close>

text \<open>
  The loop \<open>for cf, t in zip(cash_flows, times)\<close> appends \<open>cf / ((1 + ytm) ** t)\<close>
  and stops at the first operation that raises; \<open>zip\<close> ends with the shorter list.
  The parameter \<open>times\<close> is written \<open>times_seq\<close>, as \<open>times\<close> is HOL's multiplication.
\<close>

fun present_values :: "real list \<Rightarrow> real list \<Rightarrow> real \<Rightarrow> py_error + complex list" where
  "present_values (cf # cash_flows) (t # times_seq) ytm =
     (case py_pow (1 + ytm) t of
        Inl e \<Rightarrow> Inl e
      | Inr p \<Rightarrow>
          (case py_cdiv cf p of
             Inl e \<Rightarrow> Inl e
           | Inr pv \<Rightarrow>
               (case present_values cash_flows times_seq ytm of
                  Inl e \<Rightarrow> Inl e
                | Inr pvs \<Rightarrow> Inr (pv # pvs))))"
| "present_values _ _ ytm = Inr []"

definition macaulay_duration :: "real list \<Rightarrow> real list \<Rightarrow> real \<Rightarrow> py_error + complex" where
  "macaulay_duration cash_flows times_seq ytm =
     (if length cash_flows \<noteq> length times_seq then
        Inl (ValueError ''The 'cash_flows' and 'times' arrays must have the same length.'')
      else
        case present_values cash_flows times_seq ytm of
          Inl e \<Rightarrow> Inl e
        | Inr pv_array \<Rightarrow>
            let total_present_value = sum_list pv_array
            in if total_present_value = 0 then Inr 0
               else
                 let weighted_pv_components =
                       map2 (\<lambda>t pv. complex_of_real t * pv) times_seq pv_array;
                     sum_weighted_pv = sum_list weighted_pv_components;
                     macd = sum_weighted_pv / total_present_value
                 in Inr macd)"

section \<open>Space-charge beam expansion\<close>

definition E_CHARGE :: real where
  "E_CHARGE = 1602176634 / 10 ^ 28"

definition E_MASS_KG :: real where
  "E_MASS_KG = 910938356 / 10 ^ 39"

definition EPSILON_0 :: real where
  "EPSILON_0 = 8854187817 / 10 ^ 21"

definition C_LIGHT :: real where
  "C_LIGHT = 299792458"

text \<open>
  \<open>simulate_transverse_expansion(initial_radius_m, initial_charge_c, gamma, z_points_m)\<close>.
  Both divisions are Python float divisions and raise on a zero divisor. The operand of
  \<open>np.sqrt\<close> is \<open>1.0\<close> plus a square.
\<close>

definition simulate_transverse_expansion ::
  "real \<Rightarrow> real \<Rightarrow> real \<Rightarrow> real list \<Rightarrow> py_error + real list" where
  "simulate_transverse_expansion initial_radius_m initial_charge_c gamma z_points_m =
     (case py_div (2 * E_CHARGE)
             (4 * pi * EPSILON_0 * E_MASS_KG * (C_LIGHT * gamma) ^ 3) of
        Inl e \<Rightarrow> Inl e
      | Inr B \<Rightarrow>
          (case py_div (B * initial_charge_c) (initial_radius_m ^ 2) of
             Inl e \<Rightarrow> Inl e
           | Inr k_g \<Rightarrow>
               Inr (map (\<lambda>z. initial_radius_m * sqrt (1 + (k_g * z) ^ 2)) z_points_m)))"

text \<open>
  The value the local \<open>k_g\<close> takes when neither division raises, as a function of the
  arguments; the lemmas below speak of it.
\<close>

definition k_g :: "real \<Rightarrow> real \<Rightarrow> real \<Rightarrow> real" where
  "k_g initial_radius_m initial_charge_c g =
     (2 * E_CHARGE) / (4 * pi * EPSILON_0 * E_MASS_KG * (C_LIGHT * g) ^ 3)
       * initial_charge_c / initial_radius_m ^ 2"

text \<open>\<open>np.linspace(start, stop, num)\<close> for \<open>num\<close> at least two.\<close>

definition linspace :: "real \<Rightarrow> real \<Rightarrow> nat \<Rightarrow> real list" where
  "linspace start stop num =
     map (\<lambda>i. start + real i * ((stop - start) / real (num - 1))) [0..<num]"

text \<open>The example driver of part 2, with its arguments in the order the call gives them.\<close>

definition CHARGE :: real where
  "CHARGE = 100 / 10 ^ 12"

definition R_INITIAL :: real where
  "R_INITIAL = 1 / 10 ^ 3"

definition GAMMA :: real where
  "GAMMA = 20"

definition DRIFT_DISTANCE :: real where
  "DRIFT_DISTANCE = 1"

definition z_points :: "real list" where
  "z_points = linspace 0 DRIFT_DISTANCE 11"

definition r_expansion :: "py_error + real list" where
  "r_expansion = simulate_transverse_expansion CHARGE R_INITIAL GAMMA z_points"

section \<open>Relativistic electron kinematics\<close>

definition JOULES_PER_EV :: real where
  "JOULES_PER_EV = 1602176634 / 10 ^ 28"

definition E_REST_J :: real where
  "E_REST_J = E_MASS_KG * C_LIGHT ^ 2"

definition E_REST_MEV :: real where
  "E_REST_MEV = (E_REST_J / JOULES_PER_EV) / 10 ^ 6"

text \<open>
  The returned dictionary. \<open>beta\<close> comes from \<open>np.sqrt\<close> in one branch, so it and the
  momentum computed from it are a number or NaN (\<open>None\<close>).
\<close>

record properties =
  gamma :: real
  beta :: "real option"
  momentum_mevc :: "real option"

text \<open>
  \<open>calculate_relativistic_properties(energy_gev)\<close>. The locals \<open>gamma\<close> and \<open>beta\<close> are
  written \<open>g\<close> and \<open>b\<close>, the names being those of the record's fields. Both divisions
  are Python float divisions.
\<close>

definition calculate_relativistic_properties :: "real \<Rightarrow> py_error + properties" where
  "calculate_relativistic_properties energy_gev =
     (let energy_mev = energy_gev * 1000
      in case py_div energy_mev E_REST_MEV of
           Inl e \<Rightarrow> Inl e
         | Inr g \<Rightarrow>
             (case (if g \<le> 1 then Inr (Some 0)
                    else (case py_div 1 (g ^ 2) of
                            Inl e \<Rightarrow> Inl e
                          | Inr q \<Rightarrow> Inr (np_sqrt (1 - q)))) of
                Inl e \<Rightarrow> Inl e
              | Inr b \<Rightarrow>
                  Inr \<lparr>gamma = g, beta = b,
                       momentum_mevc = map_option (\<lambda>bv. g * E_REST_MEV * bv) b\<rparr>))"

section \<open>Results\<close>

lemma E_REST_MEV_pos: "0 < E_REST_MEV"
  by (simp add: E_REST_MEV_def E_REST_J_def E_MASS_KG_def C_LIGHT_def JOULES_PER_EV_def)

subsection \<open>Herfindahl-Hirschman index\<close>


















text \<open>
  Claim C10. \<open>calculate_hhi\<close> is non-negative on every list of numbers, negative entries
  included: the result is the \<open>0\<close> of a guard or a sum of squares.
\<close>

theorem calculate_hhi_nonneg: "0 \<le> calculate_hhi market_shares"
  by (auto simp: calculate_hhi_def Let_def intro!: sum_list_nonneg)

subsection \<open>Macaulay duration\<close>

lemma py_pow_not_ValueError: "py_pow b t \<noteq> Inl (ValueError m)"
  by (simp add: py_pow_def)

lemma py_cdiv_not_ValueError: "py_cdiv a p \<noteq> Inl (ValueError m)"
  by (simp add: py_cdiv_def)

lemma present_values_not_ValueError:
  "present_values cash_flows times_seq ytm \<noteq> Inl (ValueError m)"
proof (induction cash_flows arbitrary: times_seq)
  case Nil
  show ?case by simp
next
  case (Cons cf cash_flows)
  show ?case
  proof (cases times_seq)
    case Nil
    then show ?thesis by simp
  next
    case (Cons t ts)
    then show ?thesis
      using Cons.IH [of ts] py_pow_not_ValueError [of "1 + ytm" t m]
        py_cdiv_not_ValueError [of cf _ m]
      by (auto split: sum.splits)
  qed
qed

text \<open>
  Claim C6. \<open>macaulay_duration\<close> fails with the \<open>ValueError\<close> whose message is
  "The 'cash_flows' and 'times' arrays must have the same length." exactly when the two lists
  have unequal lengths, and in that case it returns no duration.
\<close>

theorem macaulay_duration_length_error:
  "(macaulay_duration cash_flows times_seq ytm
      = Inl (ValueError ''The 'cash_flows' and 'times' arrays must have the same length.'')
    \<longleftrightarrow> length cash_flows \<noteq> length times_seq)
   \<and> (length cash_flows \<noteq> length times_seq \<longrightarrow>
        (\<forall>d. macaulay_duration cash_flows times_seq ytm \<noteq> Inr d))"
  using present_values_not_ValueError [of cash_flows times_seq ytm]
  by (auto simp: macaulay_duration_def Let_def split: sum.splits)

text \<open>
  Three cash flows against two times give the error and no value; three against three with
  \<open>ytm = -1\<close> fail differently, with \<open>ZeroDivisionError\<close>.
\<close>

theorem macaulay_duration_length_error_witness:
  "length [80, 80, 1080 :: real] \<noteq> length [1, 2 :: real]
   \<and> macaulay_duration [80, 80, 1080] [1, 2] (1 / 10)
      = Inl (ValueError ''The 'cash_flows' and 'times' arrays must have the same length.'')
   \<and> (\<forall>d. macaulay_duration [80, 80, 1080] [1, 2] (1 / 10) \<noteq> Inr d)
   \<and> macaulay_duration [80, 80, 1080] [1, 2, 3] (- 1) = Inl ZeroDivisionError"
  using macaulay_duration_length_error [of "[80, 80, 1080]" "[1, 2]" "1 / 10"]
  by (simp add: macaulay_duration_def py_pow_def py_cdiv_def)
















subsection \<open>Space-charge beam expansion\<close>

lemma growth_divisor_nonzero:
  "g \<noteq> 0 \<Longrightarrow> 4 * pi * EPSILON_0 * E_MASS_KG * (C_LIGHT * g) ^ 3 \<noteq> 0"
  by (simp add: EPSILON_0_def E_MASS_KG_def C_LIGHT_def)

lemma simulate_returns:
  assumes "g \<noteq> 0" "r0 \<noteq> 0"
  shows "simulate_transverse_expansion r0 q g zs
           = Inr (map (\<lambda>z. r0 * sqrt (1 + (k_g r0 q g * z) ^ 2)) zs)"
  using growth_divisor_nonzero [OF assms(1)] assms(2)
  by (simp add: simulate_transverse_expansion_def py_div_def k_g_def)






lemma z_points_eq:
  "z_points = [0, 1 / 10, 2 / 10, 3 / 10, 4 / 10, 5 / 10, 6 / 10, 7 / 10, 8 / 10, 9 / 10, 1]"
  by (simp add: z_points_def linspace_def DRIFT_DISTANCE_def upt_rec)


text \<open>
  Claim C1. The example driver calls
  \<open>simulate_transverse_expansion(CHARGE, R_INITIAL, GAMMA, z_points)\<close>, so the bunch
  charge is taken as the initial radius and the radius as the charge. The first row of its
  table, at \<open>z = 0\<close>, is the radius \<open>1e-10\<close> m, where the model evaluated with
  initial radius 1 mm and charge 100 pC gives \<open>1e-3\<close> m: the table is not the one the
  claim describes.
\<close>

theorem driver_swaps_radius_and_charge:
  "map_sum id hd r_expansion = Inr (1 / 10 ^ 10)
   \<and> map_sum id hd (simulate_transverse_expansion R_INITIAL CHARGE GAMMA z_points)
       = Inr (1 / 10 ^ 3)
   \<and> r_expansion \<noteq> simulate_transverse_expansion R_INITIAL CHARGE GAMMA z_points"
proof -
  have a: "r_expansion
             = Inr (map (\<lambda>z. CHARGE * sqrt (1 + (k_g CHARGE R_INITIAL GAMMA * z) ^ 2)) z_points)"
    unfolding r_expansion_def
    by (rule simulate_returns) (simp_all add: GAMMA_def CHARGE_def)
  have b: "simulate_transverse_expansion R_INITIAL CHARGE GAMMA z_points
             = Inr (map (\<lambda>z. R_INITIAL * sqrt (1 + (k_g R_INITIAL CHARGE GAMMA * z) ^ 2)) z_points)"
    by (rule simulate_returns) (simp_all add: GAMMA_def R_INITIAL_def)
  have c: "map_sum id hd r_expansion = Inr (1 / 10 ^ 10)"
    by (simp add: a z_points_eq CHARGE_def)
  have "map_sum id hd (simulate_transverse_expansion R_INITIAL CHARGE GAMMA z_points)
          = Inr R_INITIAL"
    unfolding b by (simp add: z_points_eq)
  then have d: "map_sum id hd (simulate_transverse_expansion R_INITIAL CHARGE GAMMA z_points)
             = Inr (1 / 10 ^ 3)"
    by (simp only: R_INITIAL_def)
  from c d have "r_expansion \<noteq> simulate_transverse_expansion R_INITIAL CHARGE GAMMA z_points"
    by auto
  with c d show ?thesis by simp
qed


subsection \<open>Relativistic electron kinematics\<close>

lemma inverse_square_bounds:
  assumes "1 < (g::real)"
  shows "0 < 1 / g ^ 2" "1 / g ^ 2 < 1" "g ^ 2 \<noteq> 0"
proof -
  have "0 < g" using assms by linarith
  then have p: "0 < g ^ 2" by simp
  have "1 < g ^ 2" using assms by (simp add: one_less_power)
  then show "1 / g ^ 2 < 1" using p by (simp add: divide_less_eq_1_pos)
  show "0 < 1 / g ^ 2" "g ^ 2 \<noteq> 0" using p by simp_all
qed

lemma calc_returns:
  "calculate_relativistic_properties energy_gev
     = Inr \<lparr>gamma = energy_gev * 1000 / E_REST_MEV,
            beta = (if energy_gev * 1000 / E_REST_MEV \<le> 1 then Some 0
                    else Some (sqrt (1 - 1 / (energy_gev * 1000 / E_REST_MEV) ^ 2))),
            momentum_mevc = (if energy_gev * 1000 / E_REST_MEV \<le> 1 then Some 0
                    else Some (energy_gev * 1000 / E_REST_MEV * E_REST_MEV
                       * sqrt (1 - 1 / (energy_gev * 1000 / E_REST_MEV) ^ 2)))\<rparr>"
proof -
  define g where "g = energy_gev * 1000 / E_REST_MEV"
  have E: "E_REST_MEV \<noteq> 0" using E_REST_MEV_pos by simp
  show ?thesis
  proof (cases "g \<le> 1")
    case True
    then show ?thesis using E
      by (simp add: calculate_relativistic_properties_def py_div_def g_def Let_def)
  next
    case False
    then have g1: "1 < g" by simp
    then have "1 / g ^ 2 < 1" "g ^ 2 \<noteq> 0" by (rule inverse_square_bounds)+
    then have "\<not> 1 - 1 / g ^ 2 < 0" by simp
    then show ?thesis using E False \<open>g ^ 2 \<noteq> 0\<close>
      unfolding g_def
      by (simp add: calculate_relativistic_properties_def py_div_def np_sqrt_def Let_def)
  qed
qed




text \<open>
  Claim C8. Whenever the computed Lorentz factor is at most 1 the velocity fraction is
  exactly \<open>0\<close>; the square root is evaluated only for a Lorentz factor above 1, where
  its operand \<open>1 - 1 / gamma ^ 2\<close> is non-negative. So \<open>beta\<close> is never NaN and the
  function never raises.
\<close>

theorem beta_zero_at_or_below_rest:
  "\<exists>p. calculate_relativistic_properties energy_gev = Inr p
     \<and> (gamma p \<le> 1 \<longrightarrow> beta p = Some 0)
     \<and> (1 < gamma p \<longrightarrow> 0 \<le> 1 - 1 / (gamma p) ^ 2
            \<and> beta p = Some (sqrt (1 - 1 / (gamma p) ^ 2)))
     \<and> beta p \<noteq> None"
proof -
  define g where "g = energy_gev * 1000 / E_REST_MEV"
  have "0 \<le> 1 - 1 / g ^ 2" if "1 < g"
    using inverse_square_bounds(2) [OF that] by simp
  then show ?thesis
    unfolding calc_returns g_def [symmetric] by auto
qed

lemma calc_gamma:
  "calculate_relativistic_properties energy_gev = Inr p \<Longrightarrow>
   gamma p = energy_gev * 1000 / E_REST_MEV"
  by (auto simp: calc_returns)

lemma gamma_at_10_GeV: "1 < 10 * 1000 / E_REST_MEV"
  by (simp add: E_REST_MEV_def E_REST_J_def E_MASS_KG_def C_LIGHT_def JOULES_PER_EV_def)

lemma gamma_at_100_keV: "(1 / 10000) * 1000 / E_REST_MEV < 1"
  by (simp add: E_REST_MEV_def E_REST_J_def E_MASS_KG_def C_LIGHT_def JOULES_PER_EV_def)


text \<open>
  At 100 keV the Lorentz factor is below 1 and the operand would be negative; at zero energy
  the Lorentz factor is 0; at 10 GeV the square root is taken.
\<close>

theorem beta_zero_at_or_below_rest_witness:
  "(\<exists>p. calculate_relativistic_properties (1 / 10000) = Inr p
       \<and> gamma p \<le> 1 \<and> 1 - 1 / (gamma p) ^ 2 < 0 \<and> beta p = Some 0)
   \<and> (\<exists>p. calculate_relativistic_properties 0 = Inr p \<and> gamma p = 0 \<and> beta p = Some 0)
   \<and> (\<exists>p. calculate_relativistic_properties 10 = Inr p
       \<and> 1 < gamma p \<and> 0 \<le> 1 - 1 / (gamma p) ^ 2
       \<and> beta p = Some (sqrt (1 - 1 / (gamma p) ^ 2)))"
proof -
  from beta_zero_at_or_below_rest [of "1 / 10000"]
  obtain p where p: "calculate_relativistic_properties (1 / 10000) = Inr p"
      "gamma p \<le> 1 \<longrightarrow> beta p = Some 0"
    by blast
  have gp: "gamma p = (1 / 10000) * 1000 / E_REST_MEV"
    using calc_gamma [OF p(1)] by simp
  then have lt: "gamma p < 1" using gamma_at_100_keV by simp
  then have le: "gamma p \<le> 1" by simp
  have pos: "0 < gamma p" using E_REST_MEV_pos by (simp add: gp)
  then have "0 < (gamma p) ^ 2" "(gamma p) ^ 2 < 1"
    using lt by (simp_all add: abs_square_less_1)
  then have "1 < 1 / (gamma p) ^ 2" by simp
  then have neg: "1 - 1 / (gamma p) ^ 2 < 0" by simp
  have first: "\<exists>p. calculate_relativistic_properties (1 / 10000) = Inr p
       \<and> gamma p \<le> 1 \<and> 1 - 1 / (gamma p) ^ 2 < 0 \<and> beta p = Some 0"
    using p le neg by blast
  from beta_zero_at_or_below_rest [of 0]
  obtain p0 where p0: "calculate_relativistic_properties 0 = Inr p0"
      "gamma p0 \<le> 1 \<longrightarrow> beta p0 = Some 0"
    by blast
  have "gamma p0 = 0" using calc_gamma [OF p0(1)] by simp
  then have second: "\<exists>p. calculate_relativistic_properties 0 = Inr p \<and> gamma p = 0
       \<and> beta p = Some 0"
    using p0 by auto
  from beta_zero_at_or_below_rest [of 10]
  obtain q where q: "calculate_relativistic_properties 10 = Inr q"
      "1 < gamma q \<longrightarrow> 0 \<le> 1 - 1 / (gamma q) ^ 2
            \<and> beta q = Some (sqrt (1 - 1 / (gamma q) ^ 2))"
    by blast
  have "gamma q = 10 * 1000 / E_REST_MEV" using calc_gamma [OF q(1)] by simp
  then have "1 < gamma q" using gamma_at_10_GeV by simp
  then have third: "\<exists>p. calculate_relativistic_properties 10 = Inr p
       \<and> 1 < gamma p \<and> 0 \<le> 1 - 1 / (gamma p) ^ 2
       \<and> beta p = Some (sqrt (1 - 1 / (gamma p) ^ 2))"
    using q by blast
  show ?thesis using first second third by blast
qed

end
